theory Spec2Isabelle
  imports Complex_Main
begin

section \<open>Python values used by the judge and the harness\<close>

subsection \<open>Floats\<close>

text \<open>
  A Python float is modelled by its value: a finite number, one of the two infinities, or
  NaN. Every comparison with NaN is false, as in Python. The sign of zero is not
  modelled. The operations \<open>fadd\<close>, \<open>fmul\<close>, \<open>fdiv\<close> and \<open>round2\<close> below compute
  on finite values without the rounding of binary arithmetic: on doubles, their results
  are those of Python wherever the exact result is a double again (for \<open>round2\<close>, the
  result is the two-decimal number that Python's result is the nearest double to). Where
  a property depends on the digits of a result, the operations take the rounding as an
  argument (\<open>float_arith\<close> below).
\<close>

datatype pyfloat = Fin real | PInf | NInf | NaN

fun fneg :: "pyfloat \<Rightarrow> pyfloat" where
  "fneg (Fin x) = Fin (- x)"
| "fneg PInf = NInf"
| "fneg NInf = PInf"
| "fneg NaN = NaN"

fun fadd :: "pyfloat \<Rightarrow> pyfloat \<Rightarrow> pyfloat" where
  "fadd NaN _ = NaN"
| "fadd _ NaN = NaN"
| "fadd (Fin x) (Fin y) = Fin (x + y)"
| "fadd PInf NInf = NaN"
| "fadd NInf PInf = NaN"
| "fadd PInf _ = PInf"
| "fadd NInf _ = NInf"
| "fadd (Fin x) PInf = PInf"
| "fadd (Fin x) NInf = NInf"

definition fsub :: "pyfloat \<Rightarrow> pyfloat \<Rightarrow> pyfloat" where
  "fsub a b = fadd a (fneg b)"

fun fabs :: "pyfloat \<Rightarrow> pyfloat" where
  "fabs (Fin x) = Fin \<bar>x\<bar>"
| "fabs PInf = PInf"
| "fabs NInf = PInf"
| "fabs NaN = NaN"

text \<open>The sign of a float that is not NaN: -1, 0 or 1.\<close>

fun fsgn :: "pyfloat \<Rightarrow> int" where
  "fsgn (Fin x) = (if x < 0 then - 1 else if x = 0 then 0 else 1)"
| "fsgn PInf = 1"
| "fsgn NInf = - 1"
| "fsgn NaN = 0"

fun fmul :: "pyfloat \<Rightarrow> pyfloat \<Rightarrow> pyfloat" where
  "fmul NaN _ = NaN"
| "fmul _ NaN = NaN"
| "fmul (Fin x) (Fin y) = Fin (x * y)"
| "fmul a b =
     (let s = fsgn a * fsgn b
      in if s = 0 then NaN else if 0 < s then PInf else NInf)"

text \<open>
  \<open>a / b\<close>. Python raises ZeroDivisionError when \<open>b\<close> is zero; the judge's only
  division is guarded by \<open>max_score > 0\<close> (see \<open>fgt_zero_nonzero\<close> below), so that
  case is never evaluated.
\<close>

fun fdiv :: "pyfloat \<Rightarrow> pyfloat \<Rightarrow> pyfloat" where
  "fdiv NaN _ = NaN"
| "fdiv _ NaN = NaN"
| "fdiv (Fin x) (Fin y) = Fin (x / y)"
| "fdiv (Fin x) _ = Fin 0"
| "fdiv a (Fin y) = (if y < 0 then fneg a else a)"
| "fdiv _ _ = NaN"

text \<open>\<open>a < b\<close>, \<open>a <= b\<close> and \<open>a > b\<close> on floats.\<close>

fun flt :: "pyfloat \<Rightarrow> pyfloat \<Rightarrow> bool" where
  "flt NaN _ = False"
| "flt _ NaN = False"
| "flt (Fin x) (Fin y) = (x < y)"
| "flt PInf _ = False"
| "flt _ NInf = False"
| "flt _ PInf = True"
| "flt NInf _ = True"

fun fle :: "pyfloat \<Rightarrow> pyfloat \<Rightarrow> bool" where
  "fle NaN _ = False"
| "fle _ NaN = False"
| "fle a b = (a = b \<or> flt a b)"

definition fgt :: "pyfloat \<Rightarrow> pyfloat \<Rightarrow> bool" where
  "fgt a b = flt b a"

text \<open>
  \<open>round(x, 2)\<close>: Python rounds the value to two decimals, ties to the even neighbour;
  an infinity and NaN are returned as they are.
\<close>

definition round_half_even :: "real \<Rightarrow> int" where
  "round_half_even x =
     (let f = \<lfloor>x\<rfloor>; d = x - of_int f
      in if d < 1 / 2 then f
         else if 1 / 2 < d then f + 1
         else if even f then f else f + 1)"

fun round2 :: "pyfloat \<Rightarrow> pyfloat" where
  "round2 (Fin x) = Fin (of_int (round_half_even (x * 100)) / 100)"
| "round2 a = a"

text \<open>\<open>sum(xs)\<close>: Python adds from the left, starting from 0.\<close>

definition py_sum :: "pyfloat list \<Rightarrow> pyfloat" where
  "py_sum xs = foldl fadd (Fin 0) xs"

text \<open>
  Python's arithmetic on floats, as far as its results depend on the binary
  representation: \<open>rnd\<close> gives the float that stands for an exact real result (the
  nearest double, an infinity on overflow), and \<open>fsum\<close> is \<open>sum\<close> on a non-empty list
  of floats (additions from the left, each rounded; with a compensation term since
  CPython 3.12). \<open>exact_arith\<close> is the arithmetic that does not round.
\<close>

record float_arith =
  rnd :: "real \<Rightarrow> pyfloat"
  fsum :: "pyfloat list \<Rightarrow> pyfloat"

definition exact_arith :: float_arith where
  "exact_arith = \<lparr> rnd = Fin, fsum = py_sum \<rparr>"

fun fmul_with :: "(real \<Rightarrow> pyfloat) \<Rightarrow> pyfloat \<Rightarrow> pyfloat \<Rightarrow> pyfloat" where
  "fmul_with r (Fin x) (Fin y) = r (x * y)"
| "fmul_with r a b = fmul a b"

fun fdiv_with :: "(real \<Rightarrow> pyfloat) \<Rightarrow> pyfloat \<Rightarrow> pyfloat \<Rightarrow> pyfloat" where
  "fdiv_with r (Fin x) (Fin y) = r (x / y)"
| "fdiv_with r a b = fdiv a b"

text \<open>
  \<open>round(x, 2)\<close>: the float for \<open>k / 100\<close>, where \<open>k\<close> is the integer nearest to
  \<open>100 x\<close> (the even one of two nearest).
\<close>

fun round2_with :: "(real \<Rightarrow> pyfloat) \<Rightarrow> pyfloat \<Rightarrow> pyfloat" where
  "round2_with r (Fin x) = r (of_int (round_half_even (x * 100)) / 100)"
| "round2_with r a = a"

text \<open>\<open>sum(xs)\<close>: the start value 0 for the empty list.\<close>

definition sum_with :: "float_arith \<Rightarrow> pyfloat list \<Rightarrow> pyfloat" where
  "sum_with A xs = (if xs = [] then Fin 0 else fsum A xs)"

subsection \<open>Strings\<close>

text \<open>
  A string is a list of characters, each a code point below 256. \<open>py_isspace\<close> is
  \<open>str.isspace\<close> on these code points, \<open>py_lower\<close> is \<open>str.lower\<close> on them.
\<close>

definition py_isspace :: "char \<Rightarrow> bool" where
  "py_isspace c =
     (let n = (of_char c :: nat)
      in (9 \<le> n \<and> n \<le> 13) \<or> (28 \<le> n \<and> n \<le> 32) \<or> n = 133 \<or> n = 160)"

definition py_lower :: "char \<Rightarrow> char" where
  "py_lower c =
     (let n = (of_char c :: nat)
      in if (65 \<le> n \<and> n \<le> 90) \<or> (192 \<le> n \<and> n \<le> 222 \<and> n \<noteq> 215)
         then char_of (n + 32) else c)"

definition lower :: "string \<Rightarrow> string" where
  "lower s = map py_lower s"

definition rstrip :: "string \<Rightarrow> string" where
  "rstrip s = rev (dropWhile py_isspace (rev s))"

definition strip :: "string \<Rightarrow> string" where
  "strip s = dropWhile py_isspace (rstrip s)"

abbreviation newline :: char where
  "newline \<equiv> CHR 0x0A"

text \<open>\<open>s.rstrip('\n')\<close>\<close>

definition rstrip_nl :: "string \<Rightarrow> string" where
  "rstrip_nl s = rev (dropWhile (\<lambda>c. c = newline) (rev s))"

text \<open>\<open>s.split('\n')\<close>: the pieces between newlines; never empty.\<close>

fun split_nl :: "string \<Rightarrow> string list" where
  "split_nl [] = [[]]"
| "split_nl (c # cs) =
     (if c = newline then [] # split_nl cs
      else (c # hd (split_nl cs)) # tl (split_nl cs))"

text \<open>\<open>'\n'.join(ls)\<close>\<close>

fun join_nl :: "string list \<Rightarrow> string" where
  "join_nl [] = []"
| "join_nl [l] = l"
| "join_nl (l # m # ls) = l @ newline # join_nl (m # ls)"

text \<open>
  \<open>s.split()\<close>: the maximal runs of characters that are not whitespace. The first
  argument is the run read so far.
\<close>

fun split_ws_from :: "string \<Rightarrow> string \<Rightarrow> string list" where
  "split_ws_from cur [] = (if cur = [] then [] else [cur])"
| "split_ws_from cur (c # cs) =
     (if py_isspace c
      then (if cur = [] then split_ws_from [] cs else cur # split_ws_from [] cs)
      else split_ws_from (cur @ [c]) cs)"

definition split_ws :: "string \<Rightarrow> string list" where
  "split_ws s = split_ws_from [] s"

subsection \<open>\<open>float(s)\<close>\<close>

text \<open>
  Python's conversion of a string to a float: surrounding whitespace is dropped, then an
  optional sign, then \<open>inf\<close>, \<open>infinity\<close> or \<open>nan\<close> in any case, or a decimal number
  with an optional fraction and exponent, where single underscores may separate digits.
  \<open>None\<close> is Python's ValueError. The whitespace that \<open>float\<close> drops is the ASCII
  whitespace and the two other spaces below 256 (it is not \<open>str.isspace\<close>: the
  separators 28 to 31 are rejected). A number at or above the middle between the largest
  double and \<open>2 ^ 1024\<close> is an infinity, one at or below half the smallest double is 0;
  a number in between is kept as it is written (not rounded to the nearest double).
\<close>

definition float_isspace :: "char \<Rightarrow> bool" where
  "float_isspace c =
     (let n = (of_char c :: nat) in (9 \<le> n \<and> n \<le> 13) \<or> n = 32 \<or> n = 133 \<or> n = 160)"

definition float_strip :: "string \<Rightarrow> string" where
  "float_strip s = dropWhile float_isspace (rev (dropWhile float_isspace (rev s)))"

text \<open>
  The two bounds, as numerals: \<open>overflow_bound\<close> is \<open>2 ^ 1024 - 2 ^ 970\<close> and
  \<open>underflow_scale\<close> is \<open>2 ^ 1075\<close> (see \<open>overflow_bound_eq\<close> and
  \<open>underflow_scale_eq\<close> below).
\<close>

definition overflow_bound :: real where
  "overflow_bound =
     0xFFFFFFFFFFFFFC00000000000000000000000000000000000000000000000000000000000000000000000000000000000000000000000000000000000000000000000000000000000000000000000000000000000000000000000000000000000000000000000000000000000000000000000000000000000000000000000000"

definition underflow_scale :: real where
  "underflow_scale =
     0x80000000000000000000000000000000000000000000000000000000000000000000000000000000000000000000000000000000000000000000000000000000000000000000000000000000000000000000000000000000000000000000000000000000000000000000000000000000000000000000000000000000000000000000000000000"

definition decimal_to_float :: "real \<Rightarrow> pyfloat" where
  "decimal_to_float x =
     (if overflow_bound \<le> \<bar>x\<bar> then (if x < 0 then NInf else PInf)
      else if \<bar>x\<bar> * underflow_scale \<le> 1 then Fin 0
      else Fin x)"

definition is_digit :: "char \<Rightarrow> bool" where
  "is_digit c = (48 \<le> (of_char c :: nat) \<and> (of_char c :: nat) \<le> 57)"

definition ascii_lower :: "char \<Rightarrow> char" where
  "ascii_lower c =
     (let n = (of_char c :: nat) in if 65 \<le> n \<and> n \<le> 90 then char_of (n + 32) else c)"

text \<open>A digit part: digits, with single underscores between two digits only.\<close>

fun digitpart_ok :: "bool \<Rightarrow> string \<Rightarrow> bool" where
  "digitpart_ok prev [] = prev"
| "digitpart_ok prev (c # cs) =
     (if is_digit c then digitpart_ok True cs
      else if c = CHR ''_'' \<and> prev then digitpart_ok False cs
      else False)"

definition digits_val :: "string \<Rightarrow> nat" where
  "digits_val s = foldl (\<lambda>acc c. 10 * acc + (of_char c - 48)) 0 (filter is_digit s)"

definition parse_exponent :: "string \<Rightarrow> int option" where
  "parse_exponent s =
     (case s of
        [] \<Rightarrow> Some 0
      | e # r \<Rightarrow>
          (let (neg, ds) =
                 (case r of
                    [] \<Rightarrow> (False, [])
                  | c # r' \<Rightarrow>
                      if c = CHR ''-'' then (True, r')
                      else if c = CHR ''+'' then (False, r') else (False, r))
           in if digitpart_ok False ds
              then Some (if neg then - int (digits_val ds) else int (digits_val ds))
              else None))"

definition parse_decimal :: "string \<Rightarrow> real option" where
  "parse_decimal u =
     (let is_e = (\<lambda>c. c = CHR ''e'' \<or> c = CHR ''E'');
          mant = takeWhile (\<lambda>c. \<not> is_e c) u;
          ip = takeWhile (\<lambda>c. c \<noteq> CHR ''.'') mant;
          fp = drop (Suc (length ip)) mant
      in if (ip = [] \<or> digitpart_ok False ip) \<and> (fp = [] \<or> digitpart_ok False fp)
            \<and> \<not> (ip = [] \<and> fp = [])
         then (case parse_exponent (dropWhile (\<lambda>c. \<not> is_e c) u) of
                 None \<Rightarrow> None
               | Some e \<Rightarrow>
                   (let m = real (digits_val (ip @ fp));
                        k = e - int (length (filter is_digit fp))
                    in Some (if 0 \<le> k then m * 10 ^ nat k else m / 10 ^ nat (- k))))
         else None)"

definition parse_float :: "string \<Rightarrow> pyfloat option" where
  "parse_float s =
     (let t = float_strip s;
          (neg, u) =
            (case t of
               [] \<Rightarrow> (False, [])
             | c # r \<Rightarrow>
                 if c = CHR ''-'' then (True, r)
                 else if c = CHR ''+'' then (False, r) else (False, t));
          lu = map ascii_lower u
      in if lu = ''inf'' \<or> lu = ''infinity'' then Some (if neg then NInf else PInf)
         else if lu = ''nan'' then Some NaN
         else (case parse_decimal u of
                 None \<Rightarrow> None
               | Some x \<Rightarrow> Some (decimal_to_float (if neg then - x else x))))"

subsection \<open>Formatted messages\<close>

text \<open>
  A diagnostic message is kept as the pieces of the f-string that builds it: the literal
  text and the values interpolated into it, in order. A plain string is a single piece.
\<close>

datatype exc =
    ValueError_float string  \<comment> \<open>\<open>float(s)\<close> failed on the string\<close>
  | AttributeError_get       \<comment> \<open>\<open>.get\<close> on a value that is not a dict\<close>
  | RaisedError string       \<comment> \<open>any other exception, with its text\<close>

datatype piece = Lit string | IntV int | FloatV pyfloat | StrV string | ExcV exc

type_synonym message = "piece list"

section \<open>The judge (judge.py)\<close>

datatype Verdict = AC | WA | TLE | MLE | RE | CE | IE | PE | SK

record TestCaseVerdict =
  test_id :: string
  verdict :: Verdict
  score :: pyfloat
  max_score :: pyfloat
  execution_time_ms :: int
  memory_used_kb :: int
  message :: "message option"
  expected_output :: "string option"
  actual_output :: "string option"
  input_preview :: "string option"

text \<open>
  The field \<open>max_score\<close> of a JudgeResult is \<open>result_max_score\<close> here, since a record
  field name is global.
\<close>

record JudgeResult =
  final_verdict :: Verdict
  total_score :: pyfloat
  result_max_score :: pyfloat
  score_percentage :: pyfloat
  passed_count :: int
  failed_count :: int
  total_count :: int
  total_time_ms :: int
  max_memory_kb :: int
  test_verdicts :: "TestCaseVerdict list"
  compilation_status :: "string option"
  compilation_message :: "string option"
  judge_message :: "string option"

text \<open>The dict \<open>test_weights\<close> is an association list, read with \<open>map_of\<close>.\<close>

record ProblemConfig =
  time_limit_ms :: int
  memory_limit_kb :: int
  comparison_mode :: string
  float_tolerance :: pyfloat
  special_judge_path :: "string option"
  case_sensitive :: bool
  ignore_trailing_whitespace :: bool
  ignore_trailing_newlines :: bool
  partial_scoring :: bool
  test_weights :: "(string \<times> pyfloat) list"

definition default_config :: ProblemConfig where
  "default_config =
     \<lparr> time_limit_ms = 5000, memory_limit_kb = 262144, comparison_mode = ''exact'',
       float_tolerance = Fin (1 / 10 ^ 6), special_judge_path = None,
       case_sensitive = True, ignore_trailing_whitespace = True,
       ignore_trailing_newlines = True, partial_scoring = True, test_weights = [] \<rparr>"

subsection \<open>Comparator\<close>

definition normalize :: "string option \<Rightarrow> ProblemConfig \<Rightarrow> string" where
  "normalize text config =
     (case text of
        None \<Rightarrow> []
      | Some t \<Rightarrow>
          (let r1 = (if ignore_trailing_whitespace config
                     then join_nl (map rstrip (split_nl t)) else t);
               r2 = (if ignore_trailing_newlines config then rstrip_nl r1 else r1)
           in if \<not> case_sensitive config then lower r2 else r2))"

text \<open>
  The first position (from \<open>i\<close>) at which the two lists, read in parallel as \<open>zip\<close> does,
  hold a pair that satisfies \<open>p\<close>.
\<close>

fun first_pair :: "('a \<Rightarrow> 'b \<Rightarrow> bool) \<Rightarrow> nat \<Rightarrow> 'a list \<Rightarrow> 'b list \<Rightarrow> (nat \<times> 'a \<times> 'b) option" where
  "first_pair p i (x # xs) (y # ys) =
     (if p x y then Some (i, x, y) else first_pair p (Suc i) xs ys)"
| "first_pair p i _ _ = None"

definition exact_match :: "string \<Rightarrow> string \<Rightarrow> ProblemConfig \<Rightarrow> bool \<times> message" where
  "exact_match expected actual config =
     (let norm_expected = normalize (Some expected) config;
          norm_actual = normalize (Some actual) config
      in if norm_expected = norm_actual then (True, [Lit ''Output matches expected''])
         else
           (let exp_lines = split_nl norm_expected;
                act_lines = split_nl norm_actual
            in if length exp_lines \<noteq> length act_lines
               then (False, [Lit ''Line count mismatch: expected '', IntV (int (length exp_lines)),
                             Lit '', got '', IntV (int (length act_lines))])
               else (case first_pair (\<lambda>e a. e \<noteq> a) 0 exp_lines act_lines of
                       Some (i, e, a) \<Rightarrow> (False, [Lit ''Difference at line '', IntV (int i + 1)])
                     | None \<Rightarrow> (False, [Lit ''Output differs from expected'']))))"

definition token_match :: "string \<Rightarrow> string \<Rightarrow> ProblemConfig \<Rightarrow> bool \<times> message" where
  "token_match expected actual config =
     (let exp_tokens = (if \<not> case_sensitive config then map lower (split_ws expected)
                        else split_ws expected);
          act_tokens = (if \<not> case_sensitive config then map lower (split_ws actual)
                        else split_ws actual)
      in if exp_tokens = act_tokens then (True, [Lit ''All tokens match''])
         else if length exp_tokens \<noteq> length act_tokens
         then (False, [Lit ''Token count mismatch: expected '', IntV (int (length exp_tokens)),
                       Lit '', got '', IntV (int (length act_tokens))])
         else (case first_pair (\<lambda>e a. e \<noteq> a) 0 exp_tokens act_tokens of
                 Some (i, e, a) \<Rightarrow>
                   (False, [Lit ''Token mismatch at position '', IntV (int i + 1),
                            Lit ('': expected '' @ [CHR 0x27]), StrV e,
                            Lit ([CHR 0x27] @ '', got '' @ [CHR 0x27]), StrV a,
                            Lit [CHR 0x27]])
               | None \<Rightarrow> (False, [Lit ''Tokens differ''])))"

text \<open>
  \<open>[float(x) for x in tokens]\<close>: the values, or the first token that \<open>float\<close> rejects.
\<close>

fun parse_floats :: "string list \<Rightarrow> string + pyfloat list" where
  "parse_floats [] = Inr []"
| "parse_floats (t # ts) =
     (case parse_float t of
        None \<Rightarrow> Inl t
      | Some v \<Rightarrow> (case parse_floats ts of Inl b \<Rightarrow> Inl b | Inr vs \<Rightarrow> Inr (v # vs)))"

text \<open>The test of the loop of \<open>float_match\<close>: the pair is reported as a mismatch.\<close>

definition float_mismatch :: "pyfloat \<Rightarrow> pyfloat \<Rightarrow> pyfloat \<Rightarrow> bool" where
  "float_mismatch tolerance exp_val act_val =
     (fgt (fabs (fsub exp_val act_val)) tolerance
      \<and> fgt (fabs (fsub exp_val act_val)) (fmul tolerance (fabs exp_val)))"

definition float_match :: "string \<Rightarrow> string \<Rightarrow> ProblemConfig \<Rightarrow> bool \<times> message" where
  "float_match expected actual config =
     (case parse_floats (split_ws expected) of
        Inl t \<Rightarrow> (False, [Lit ''Cannot parse as float: '', ExcV (ValueError_float t)])
      | Inr exp_values \<Rightarrow>
          (case parse_floats (split_ws actual) of
             Inl t \<Rightarrow> (False, [Lit ''Cannot parse as float: '', ExcV (ValueError_float t)])
           | Inr act_values \<Rightarrow>
               if length exp_values \<noteq> length act_values
               then (False, [Lit ''Value count mismatch: expected '',
                             IntV (int (length exp_values)), Lit '', got '',
                             IntV (int (length act_values))])
               else
                 (let tolerance = float_tolerance config
                  in case first_pair (float_mismatch tolerance) 0 exp_values act_values of
                       Some (i, e, a) \<Rightarrow>
                         (False, [Lit ''Value mismatch at position '', IntV (int i + 1),
                                  Lit '': expected '', FloatV e, Lit '', got '', FloatV a,
                                  Lit '' (tolerance: '', FloatV tolerance, Lit '')''])
                     | None \<Rightarrow> (True, [Lit ''All values within tolerance'']))))"

subsection \<open>SpecialJudge\<close>

text \<open>
  The external special-judge program is the only part of the judge that reads anything
  but its arguments. It is modelled by what \<open>subprocess.run\<close> gives back for the
  arguments \<open>(input, expected, actual, test_id)\<close>: a completed process with its return
  code, standard output and standard error, the 30-second timeout, or another exception
  with its text. The standard output is given as \<open>json.loads\<close> reads it after
  \<open>strip()\<close>: a JSON object with the fields the judge looks at, another JSON value, or
  text that is not JSON (the stripped text itself). The scratch files that \<open>run\<close>
  writes and unlinks are not modelled.
\<close>

record sj_doc =
  sj_verdict :: "string option"
  sj_passed :: "bool option"
  sj_score :: "pyfloat option"
  sj_message :: "string option"

datatype sj_stdout = Json_object sj_doc | Json_other | Not_json string

datatype sj_outcome =
    Completed int sj_stdout string  \<comment> \<open>returncode, stdout, stderr\<close>
  | TimeoutExpired
  | Raised string

type_synonym SpecialJudge = "string \<Rightarrow> string \<Rightarrow> string \<Rightarrow> string \<Rightarrow> sj_outcome"

definition run_result :: "sj_outcome \<Rightarrow> bool \<times> pyfloat \<times> message" where
  "run_result r =
     (case r of
        Completed returncode out err \<Rightarrow>
          if returncode \<noteq> 0 then (False, Fin 0, [Lit ''Special judge error: '', StrV err])
          else
            (case out of
               Json_object output \<Rightarrow>
                 (let passed =
                        ((case sj_verdict output of None \<Rightarrow> ''WA'' | Some v \<Rightarrow> v) = ''AC''
                         \<or> (case sj_passed output of None \<Rightarrow> False | Some b \<Rightarrow> b));
                      score =
                        (case sj_score output of
                           None \<Rightarrow> if passed then Fin 1 else Fin 0
                         | Some sc \<Rightarrow> sc);
                      msg = (case sj_message output of None \<Rightarrow> [] | Some m \<Rightarrow> m)
                  in (passed, score, [StrV msg]))
             | Json_other \<Rightarrow> (False, Fin 0, [Lit ''Special judge error: '', ExcV AttributeError_get])
             | Not_json stdout \<Rightarrow>
                 if stdout \<in> set [''1'', ''AC'', ''ACCEPTED'', ''true'']
                 then (True, Fin 1, [Lit ''Accepted by special judge''])
                 else if stdout \<in> set [''0'', ''WA'', ''WRONG'', ''false'']
                 then (False, Fin 0, [Lit ''Rejected by special judge''])
                 else
                   (case parse_float stdout of
                      Some sc \<Rightarrow> (fgt sc (Fin 0), sc, [Lit ''Score: '', FloatV sc])
                    | None \<Rightarrow> (False, Fin 0, [Lit ''Unknown special judge output: '', StrV stdout])))
      | TimeoutExpired \<Rightarrow> (False, Fin 0, [Lit ''Special judge timeout''])
      | Raised e \<Rightarrow> (False, Fin 0, [Lit ''Special judge error: '', ExcV (RaisedError e)]))"

definition run :: "SpecialJudge \<Rightarrow> string \<Rightarrow> string \<Rightarrow> string \<Rightarrow> string \<Rightarrow> bool \<times> pyfloat \<times> message" where
  "run sj input_data expected actual tid = run_result (sj input_data expected actual tid)"

subsection \<open>Judge\<close>

text \<open>
  The documents the judge reads are dicts loaded from JSON. Each key the judge looks up is
  a field here, \<open>None\<close> when the key is absent, of the type the harness writes for it.
  The key \<open>error\<close> may be present with the value null: \<open>Some None\<close>.
\<close>

record test_result =
  tr_test_id :: "string option"
  tr_testId :: "string option"
  tr_status :: "string option"
  tr_actual_output :: "string option"
  tr_actualOutput :: "string option"
  tr_execution_time_ms :: "int option"
  tr_executionTimeMs :: "int option"
  tr_memory_used_kb :: "int option"
  tr_memoryUsedKb :: "int option"
  tr_input :: "string option"
  tr_expected_output :: "string option"
  tr_expectedOutput :: "string option"
  tr_error :: "string option option"
  tr_timedOut :: "bool option"

text \<open>\<open>cr_other_keys\<close>: the dict has a key the judge does not look up.\<close>

record compile_result =
  cr_success :: "bool option"
  cr_skipped :: "bool option"
  cr_stderr :: "string option"
  cr_error :: "string option"
  cr_other_keys :: bool

record harness_output =
  ho_compile_result :: "compile_result option"
  ho_compileResult :: "compile_result option"
  ho_test_results :: "test_result list option"
  ho_testResults :: "test_result list option"
  ho_stdout :: "string option"
  ho_output :: "string option"
  ho_status :: "string option"
  ho_execution_time_ms :: "int option"
  ho_executionTimeMs :: "int option"
  ho_memory_used_kb :: "int option"
  ho_memoryUsedKb :: "int option"
  ho_input :: "string option"
  ho_error :: "string option option"
  ho_timedOut :: "bool option"

text \<open>\<open>d.get(k, default)\<close> and \<open>d.get(k1, d.get(k2, default))\<close>\<close>

definition get1 :: "'a option \<Rightarrow> 'a \<Rightarrow> 'a" where
  "get1 a d = (case a of Some x \<Rightarrow> x | None \<Rightarrow> d)"

definition get2 :: "'a option \<Rightarrow> 'a option \<Rightarrow> 'a \<Rightarrow> 'a" where
  "get2 a b d = get1 a (get1 b d)"

text \<open>\<open>s[:n] if s else None\<close>\<close>

definition preview :: "nat \<Rightarrow> string \<Rightarrow> string option" where
  "preview n s = (if s \<noteq> [] then Some (take n s) else None)"

text \<open>
  A Judge holds its config and, when the config names a special judge, the special
  judge: \<open>__init__\<close> sets it from \<open>special_judge_path\<close> (and raises when the file is
  missing or not executable).
\<close>

record Judge =
  config :: ProblemConfig
  special_judge :: "SpecialJudge option"

text \<open>The built-in comparator chosen by \<open>comparison_mode\<close>.\<close>

definition builtin_compare :: "ProblemConfig \<Rightarrow> string \<Rightarrow> string \<Rightarrow> bool \<times> message" where
  "builtin_compare cfg expected actual =
     (if comparison_mode cfg = ''token'' then token_match expected actual cfg
      else if comparison_mode cfg = ''float'' then float_match expected actual cfg
      else exact_match expected actual cfg)"

text \<open>
  The comparison step of \<open>judge_test_case\<close>: \<open>(passed, score, message)\<close>. The special
  judge is used when there is one and the mode is \<open>special\<close>.
\<close>

definition compare_outputs :: "Judge \<Rightarrow> string \<Rightarrow> string \<Rightarrow> string \<Rightarrow> string \<Rightarrow> pyfloat \<Rightarrow> bool \<times> pyfloat \<times> message" where
  "compare_outputs self input_data expected actual tid weight =
     (if special_judge self \<noteq> None \<and> comparison_mode (config self) = ''special''
      then (case run (the (special_judge self)) input_data expected actual tid of
              (passed, sc, msg) \<Rightarrow> (passed, fmul sc weight, msg))
      else (case builtin_compare (config self) expected actual of
              (passed, msg) \<Rightarrow> (passed, if passed then weight else Fin 0, msg)))"

definition judge_test_case :: "Judge \<Rightarrow> test_result \<Rightarrow> string option \<Rightarrow> TestCaseVerdict" where
  "judge_test_case self tr expected_output0 =
     (let tid = get2 (tr_test_id tr) (tr_testId tr) ''unknown'';
          status = get1 (tr_status tr) '''';
          actual = get2 (tr_actual_output tr) (tr_actualOutput tr) '''';
          exec_time = get2 (tr_execution_time_ms tr) (tr_executionTimeMs tr) 0;
          memory_kb = get2 (tr_memory_used_kb tr) (tr_memoryUsedKb tr) 0;
          input_data = get1 (tr_input tr) '''';
          expected =
            (case expected_output0 of
               None \<Rightarrow> get2 (tr_expected_output tr) (tr_expectedOutput tr) ''''
             | Some e \<Rightarrow> e);
          weight = get1 (map_of (test_weights (config self)) tid) (Fin 1)
      in if status = ''timeout'' \<or> get1 (tr_timedOut tr) False
         then \<lparr> test_id = tid, verdict = TLE, score = Fin 0, max_score = weight,
                execution_time_ms = exec_time, memory_used_kb = memory_kb,
                message = Some [Lit ''Time limit exceeded ('', IntV exec_time, Lit ''ms)''],
                expected_output = None, actual_output = None,
                input_preview = preview 100 input_data \<rparr>
         else if status = ''memory_limit''
         then \<lparr> test_id = tid, verdict = MLE, score = Fin 0, max_score = weight,
                execution_time_ms = exec_time, memory_used_kb = memory_kb,
                message = Some [Lit ''Memory limit exceeded ('', IntV memory_kb, Lit ''KB)''],
                expected_output = None, actual_output = None,
                input_preview = preview 100 input_data \<rparr>
         else if status = ''runtime_error''
         then \<lparr> test_id = tid, verdict = RE, score = Fin 0, max_score = weight,
                execution_time_ms = exec_time, memory_used_kb = memory_kb,
                message = map_option (\<lambda>m. [StrV m])
                            (get1 (tr_error tr) (Some ''Unknown runtime error'')),
                expected_output = None, actual_output = None,
                input_preview = preview 100 input_data \<rparr>
         else
           (case compare_outputs self input_data expected actual tid weight of
              (passed, sc, msg) \<Rightarrow>
                \<lparr> test_id = tid, verdict = (if passed then AC else WA), score = sc,
                  max_score = weight, execution_time_ms = exec_time,
                  memory_used_kb = memory_kb, message = Some msg,
                  expected_output = preview 500 expected,
                  actual_output = preview 500 actual,
                  input_preview = preview 100 input_data \<rparr>))"

text \<open>\<open>str(n)\<close> for a natural number: its decimal digits.\<close>

function str_nat :: "nat \<Rightarrow> string" where
  "str_nat n =
     (if n < 10 then [char_of (48 + n)]
      else str_nat (n div 10) @ [char_of (48 + n mod 10)])"
  by pat_completeness auto
termination
  by (relation "measure id") auto

declare str_nat.simps [simp del]

text \<open>Truth value of a dict (or of None): it has a key.\<close>

definition compile_result_truthy :: "compile_result option \<Rightarrow> bool" where
  "compile_result_truthy c =
     (case c of
        None \<Rightarrow> False
      | Some cr \<Rightarrow> \<not> (cr_success cr = None \<and> cr_skipped cr = None \<and> cr_stderr cr = None
                       \<and> cr_error cr = None \<and> \<not> cr_other_keys cr))"

text \<open>
  \<open>harness_output.get('compile_result', harness_output.get('compileResult'))\<close>, and
  the test of the compile step: the result is there, not successful and not skipped.
\<close>

definition get_compile_result :: "harness_output \<Rightarrow> compile_result option" where
  "get_compile_result h =
     (case ho_compile_result h of Some c \<Rightarrow> Some c | None \<Rightarrow> ho_compileResult h)"

definition compile_failed :: "compile_result option \<Rightarrow> bool" where
  "compile_failed c =
     (compile_result_truthy c \<and> \<not> get1 (cr_success (the c)) True
      \<and> \<not> get1 (cr_skipped (the c)) False)"

definition expected_truthy :: "(string \<times> string) list option \<Rightarrow> bool" where
  "expected_truthy e = (case e of None \<Rightarrow> False | Some l \<Rightarrow> l \<noteq> [])"

text \<open>
  The loop over the test results. \<open>n\<close> is \<open>len(verdicts)\<close> when the loop reaches the
  rest of the list.
\<close>

fun judge_cases :: "Judge \<Rightarrow> (string \<times> string) list option \<Rightarrow> nat \<Rightarrow> test_result list \<Rightarrow> TestCaseVerdict list" where
  "judge_cases self expected_outputs n [] = []"
| "judge_cases self expected_outputs n (tr # trs) =
     (let tid = get2 (tr_test_id tr) (tr_testId tr) (''test-'' @ str_nat (n + 1));
          expected = (if expected_truthy expected_outputs
                      then map_of (the expected_outputs) tid else None)
      in judge_test_case self tr expected # judge_cases self expected_outputs (Suc n) trs)"

text \<open>The synthetic one-element sequence for the single-run shape.\<close>

definition single_run_result :: "harness_output \<Rightarrow> (string \<times> string) list option \<Rightarrow> test_result" where
  "single_run_result h expected_outputs =
     \<lparr> tr_test_id = Some ''test-1'', tr_testId = None,
       tr_status = Some (get1 (ho_status h) ''success''),
       tr_actual_output = Some (get2 (ho_stdout h) (ho_output h) ''''),
       tr_actualOutput = None,
       tr_execution_time_ms = Some (get2 (ho_execution_time_ms h) (ho_executionTimeMs h) 0),
       tr_executionTimeMs = None,
       tr_memory_used_kb = Some (get2 (ho_memory_used_kb h) (ho_memoryUsedKb h) 0),
       tr_memoryUsedKb = None,
       tr_input = Some (get1 (ho_input h) ''''),
       tr_expected_output =
         Some (if expected_truthy expected_outputs
               then get1 (map_of (the expected_outputs) ''test-1'') '''' else ''''),
       tr_expectedOutput = None,
       tr_error = Some (get1 (ho_error h) None),
       tr_timedOut = Some (get1 (ho_timedOut h) False) \<rparr>"

text \<open>\<open>max(xs, default=0)\<close>\<close>

definition max_default0 :: "int list \<Rightarrow> int" where
  "max_default0 xs = (case xs of [] \<Rightarrow> 0 | x # r \<Rightarrow> fold max r x)"

text \<open>The final verdict, from the per-case verdicts.\<close>

definition determine_final_verdict :: "TestCaseVerdict list \<Rightarrow> Verdict" where
  "determine_final_verdict verdicts =
     (if list_all (\<lambda>v. verdict v = AC) verdicts then AC
      else if list_ex (\<lambda>v. verdict v = TLE) verdicts then TLE
      else if list_ex (\<lambda>v. verdict v = MLE) verdicts then MLE
      else if list_ex (\<lambda>v. verdict v = RE) verdicts then RE
      else WA)"

text \<open>
  The test results the judge goes through: the array of the document or, when it is
  empty or absent and the document has the key \<open>stdout\<close>, the single synthetic record.
\<close>

definition get_test_results :: "harness_output \<Rightarrow> (string \<times> string) list option \<Rightarrow> test_result list" where
  "get_test_results h expected_outputs =
     (let test_results = get2 (ho_test_results h) (ho_testResults h) []
      in if test_results = [] \<and> ho_stdout h \<noteq> None
         then [single_run_result h expected_outputs] else test_results)"

text \<open>
  \<open>judge_submission\<close>, with the arithmetic of the aggregation (the two sums, the
  quotient, the product with 100 and the three roundings) as an argument.
\<close>

definition judge_submission_with :: "float_arith \<Rightarrow> Judge \<Rightarrow> harness_output \<Rightarrow> (string \<times> string) list option \<Rightarrow> JudgeResult" where
  "judge_submission_with A self h expected_outputs =
     (let compile_result = get_compile_result h
      in if compile_failed compile_result
         then \<lparr> final_verdict = CE, total_score = Fin 0, result_max_score = Fin 0,
                score_percentage = Fin 0, passed_count = 0, failed_count = 0,
                total_count = 0, total_time_ms = 0, max_memory_kb = 0, test_verdicts = [],
                compilation_status = Some ''failed'',
                compilation_message =
                  Some (get2 (cr_stderr (the compile_result)) (cr_error (the compile_result))
                          ''Compilation failed''),
                judge_message = None \<rparr>
         else
           (let verdicts =
                  judge_cases self expected_outputs 0 (get_test_results h expected_outputs);
                total = sum_with A (map score verdicts);
                max_total = sum_with A (map max_score verdicts);
                passed = int (length (filter (\<lambda>v. verdict v = AC) verdicts));
                failed = int (length verdicts) - passed;
                total_time = sum_list (map execution_time_ms verdicts);
                max_memory = max_default0 (map memory_used_kb verdicts);
                final = determine_final_verdict verdicts;
                percentage =
                  (if fgt max_total (Fin 0)
                   then fmul_with (rnd A) (fdiv_with (rnd A) total max_total) (Fin 100)
                   else Fin 0)
            in \<lparr> final_verdict = final, total_score = round2_with (rnd A) total,
                 result_max_score = round2_with (rnd A) max_total,
                 score_percentage = round2_with (rnd A) percentage, passed_count = passed,
                 failed_count = failed, total_count = int (length verdicts),
                 total_time_ms = total_time, max_memory_kb = max_memory,
                 test_verdicts = verdicts,
                 compilation_status =
                   (if compile_result_truthy compile_result then Some ''success'' else None),
                 compilation_message = None, judge_message = None \<rparr>))"

text \<open>\<open>judge_submission\<close> in the arithmetic that does not round.\<close>

definition judge_submission :: "Judge \<Rightarrow> harness_output \<Rightarrow> (string \<times> string) list option \<Rightarrow> JudgeResult" where
  "judge_submission = judge_submission_with exact_arith"

text \<open>The exit code of \<open>main\<close>: 0 when the final verdict is AC, 1 otherwise.\<close>

definition exit_code :: "JudgeResult \<Rightarrow> int" where
  "exit_code result = (if final_verdict result = AC then 0 else 1)"

section \<open>The standalone float judge (special_judges/float_tolerance.py)\<close>

text \<open>
  \<open>is_close\<close>, with the two module constants \<open>ABSOLUTE_TOLERANCE\<close> and
  \<open>RELATIVE_TOLERANCE\<close> (read from the environment when the module is loaded) as
  arguments.
\<close>

definition isnan :: "pyfloat \<Rightarrow> bool" where
  "isnan a = (a = NaN)"

definition isinf :: "pyfloat \<Rightarrow> bool" where
  "isinf a = (a = PInf \<or> a = NInf)"

definition is_close :: "pyfloat \<Rightarrow> pyfloat \<Rightarrow> pyfloat \<Rightarrow> pyfloat \<Rightarrow> bool" where
  "is_close absolute_tolerance relative_tolerance expected actual =
     (if isnan expected \<and> isnan actual then True
      else if isnan expected \<or> isnan actual then False
      else if isinf expected \<and> isinf actual
      then (fgt expected (Fin 0) = fgt actual (Fin 0))
      else if isinf expected \<or> isinf actual then False
      else
        (let diff = fabs (fsub expected actual)
         in if fle diff absolute_tolerance then True
            else if expected \<noteq> Fin 0
            then fle diff (fmul relative_tolerance (fabs expected))
            else False))"

section \<open>The harness\<close>

subsection \<open>json\_helper.py\<close>

record TestCase =
  tc_id :: string
  tc_input :: string
  tc_expected_output :: string
  tc_time_limit_ms :: "int option"
  tc_memory_limit_kb :: "int option"
  tc_hidden :: bool
  tc_weight :: pyfloat

record TestResult =
  h_test_id :: string
  h_passed :: bool
  h_input :: string
  h_expected_output :: string
  h_actual_output :: string
  h_execution_time_ms :: int
  h_memory_used_kb :: int
  h_status :: string
  h_error :: "message option"
  h_stderr :: "string option"

text \<open>
  What running the command gives \<open>run_single_test\<close>: the process ended with an exit
  code, its decoded standard output and standard error; or \<open>communicate\<close> timed out and
  the process was killed (the exit code is then set to 124); or starting it raised.
\<close>

datatype proc_outcome =
    Proc_exited int string string
  | Proc_timeout string string
  | Proc_raised string

text \<open>
  \<open>run_single_test\<close>, from the outcome of the process, the elapsed time measured and
  the peak memory read from the time file (0 when it could not be read).
\<close>

definition run_single_test :: "TestCase \<Rightarrow> int \<Rightarrow> int \<Rightarrow> proc_outcome \<Rightarrow> int \<Rightarrow> int \<Rightarrow> TestResult" where
  "run_single_test test_case timeout_sec mem_limit_kb outcome elapsed_ms time_file_kb =
     (let actual_timeout =
            (case tc_time_limit_ms test_case of
               None \<Rightarrow> Fin (of_int timeout_sec)
             | Some t \<Rightarrow> if t \<noteq> 0 then Fin (of_int t / 1000) else Fin (of_int timeout_sec));
          actual_memory =
            (case tc_memory_limit_kb test_case of
               None \<Rightarrow> mem_limit_kb
             | Some m \<Rightarrow> if m \<noteq> 0 then m else mem_limit_kb)
      in case outcome of
           Proc_raised e \<Rightarrow>
             \<lparr> h_test_id = tc_id test_case, h_passed = False,
               h_input = take 1000 (tc_input test_case),
               h_expected_output = take 1000 (tc_expected_output test_case),
               h_actual_output = '''', h_execution_time_ms = elapsed_ms,
               h_memory_used_kb = 0, h_status = ''runtime_error'',
               h_error = Some [ExcV (RaisedError e)], h_stderr = None \<rparr>
         | _ \<Rightarrow>
             (let (exit_code, out, err) =
                    (case outcome of
                       Proc_exited c out err \<Rightarrow> (c, out, err)
                     | Proc_timeout out err \<Rightarrow> (124, out, err)
                     | Proc_raised e \<Rightarrow> (0, [], []));
                  actual_output = strip out;
                  stderr_output = strip err;
                  (status, error) =
                    (if exit_code = 124 \<or> exit_code = 137
                     then (''timeout'',
                           Some [Lit ''Execution timeout ('', FloatV actual_timeout,
                                 Lit ''s exceeded)''])
                     else if exit_code = 139
                     then (''memory_limit'',
                           Some [Lit ''Memory limit exceeded ('', IntV actual_memory,
                                 Lit ''KB)''])
                     else if exit_code \<noteq> 0
                     then (''runtime_error'',
                           Some ([Lit ''Runtime error (exit code: '', IntV exit_code, Lit '')'']
                                 @ (if stderr_output \<noteq> []
                                    then [Lit '': '', StrV (take 500 stderr_output)] else [])))
                     else (''passed'', None));
                  expected = strip (tc_expected_output test_case);
                  actual = strip actual_output;
                  passed = ((status = ''passed'' \<or> status = ''runtime_error'')
                            \<and> actual = expected);
                  status2 = (if status = ''passed'' \<and> \<not> passed then ''wrong_answer''
                             else if passed then ''passed'' else status)
              in \<lparr> h_test_id = tc_id test_case, h_passed = passed,
                   h_input = (if \<not> tc_hidden test_case then take 1000 (tc_input test_case)
                              else ''[hidden]''),
                   h_expected_output =
                     (if \<not> tc_hidden test_case then take 1000 (tc_expected_output test_case)
                      else ''[hidden]''),
                   h_actual_output =
                     (if \<not> tc_hidden test_case then take 1000 actual_output
                      else ''[hidden]''),
                   h_execution_time_ms = elapsed_ms, h_memory_used_kb = time_file_kb,
                   h_status = status2, h_error = error,
                   h_stderr = (if stderr_output \<noteq> [] then Some (take 1000 stderr_output)
                               else None) \<rparr>))"

subsection \<open>run\_tests.py\<close>

text \<open>The result dict of \<open>run_tests.run_single_test\<close>.\<close>

record run_result_dict =
  rt_testId :: string
  rt_passed :: bool
  rt_exitCode :: int
  rt_timeMs :: int
  rt_memoryKb :: int
  rt_timeoutOccurred :: bool
  rt_memoryExceeded :: bool
  rt_stdout :: string
  rt_stderr :: string
  rt_expectedOutput :: string

datatype popen_outcome =
    Popen_exited int string string
  | Popen_timeout string string
  | Popen_memory_error
  | Popen_raised string

text \<open>
  \<open>run_tests.run_single_test\<close>, from the outcome of the process, the elapsed time
  measured and the \<open>VmHWM\<close> line of \<open>/proc\<close> (\<open>None\<close> when it could not be read).
\<close>

definition rt_run_single_test :: "string \<Rightarrow> string \<Rightarrow> int \<Rightarrow> popen_outcome \<Rightarrow> int \<Rightarrow> int option \<Rightarrow> run_result_dict" where
  "rt_run_single_test expected tid memory_kb outcome elapsed_ms vm_hwm =
     (let r0 = \<lparr> rt_testId = tid, rt_passed = False, rt_exitCode = - 1, rt_timeMs = 0,
                 rt_memoryKb = 0, rt_timeoutOccurred = False, rt_memoryExceeded = False,
                 rt_stdout = '''', rt_stderr = '''', rt_expectedOutput = expected \<rparr>;
          r1 = (case outcome of
                  Popen_exited c out err \<Rightarrow>
                    r0\<lparr> rt_exitCode := c, rt_stdout := take 100000 out,
                        rt_stderr := take 10000 err \<rparr>
                | Popen_timeout out err \<Rightarrow>
                    r0\<lparr> rt_timeoutOccurred := True, rt_exitCode := 124,
                        rt_stdout := take 100000 out, rt_stderr := take 10000 err \<rparr>
                | Popen_memory_error \<Rightarrow> r0\<lparr> rt_memoryExceeded := True, rt_exitCode := 137 \<rparr>
                | Popen_raised e \<Rightarrow> r0\<lparr> rt_stderr := e, rt_exitCode := 1 \<rparr>);
          r2 = r1\<lparr> rt_timeMs := elapsed_ms \<rparr>;
          r3 = (case vm_hwm of None \<Rightarrow> r2 | Some k \<Rightarrow> r2\<lparr> rt_memoryKb := k \<rparr>);
          r4 = (if \<not> rt_timeoutOccurred r3 \<and> \<not> rt_memoryExceeded r3 \<and> rt_exitCode r3 = 0
                then r3\<lparr> rt_passed := (strip (rt_stdout r3) = strip expected) \<rparr>
                else r3)
      in if memory_kb < rt_memoryKb r4
         then r4\<lparr> rt_memoryExceeded := True, rt_passed := False \<rparr> else r4)"

section \<open>Concrete documents\<close>

text \<open>The empty dicts, and the judge built with no argument: \<open>Judge()\<close>.\<close>

definition empty_test_result :: test_result where
  "empty_test_result =
     \<lparr> tr_test_id = None, tr_testId = None, tr_status = None, tr_actual_output = None,
       tr_actualOutput = None, tr_execution_time_ms = None, tr_executionTimeMs = None,
       tr_memory_used_kb = None, tr_memoryUsedKb = None, tr_input = None,
       tr_expected_output = None, tr_expectedOutput = None, tr_error = None,
       tr_timedOut = None \<rparr>"

definition empty_harness_output :: harness_output where
  "empty_harness_output =
     \<lparr> ho_compile_result = None, ho_compileResult = None, ho_test_results = None,
       ho_testResults = None, ho_stdout = None, ho_output = None, ho_status = None,
       ho_execution_time_ms = None, ho_executionTimeMs = None, ho_memory_used_kb = None,
       ho_memoryUsedKb = None, ho_input = None, ho_error = None, ho_timedOut = None \<rparr>"

definition default_judge :: Judge where
  "default_judge = \<lparr> config = default_config, special_judge = None \<rparr>"

text \<open>A harness output with two test results: a correct run and a timed-out run.\<close>

definition correct_result :: "string \<Rightarrow> test_result" where
  "correct_result tid =
     empty_test_result\<lparr> tr_test_id := Some tid, tr_status := Some ''passed'',
       tr_actual_output := Some ''3'', tr_expected_output := Some ''3'' \<rparr>"

definition two_results_output :: harness_output where
  "two_results_output =
     empty_harness_output\<lparr> ho_test_results :=
       Some [correct_result ''a'',
             empty_test_result\<lparr> tr_test_id := Some ''b'', tr_status := Some ''timeout'' \<rparr>] \<rparr>"

text \<open>
  Special judges: one that always answers with the JSON object
  \<open>{"verdict": "AC", "score": s}\<close>, one that always exits with code 1 and the text
  \<open>boom\<close> on its standard error.
\<close>

definition scoring_judge :: "pyfloat \<Rightarrow> SpecialJudge" where
  "scoring_judge s =
     (\<lambda>i e a t. Completed 0
        (Json_object \<lparr> sj_verdict = Some ''AC'', sj_passed = None, sj_score = Some s,
                        sj_message = None \<rparr>) [])"

text \<open>
  A special judge that answers with the score 1/2 for the test id \<open>a\<close> and with the
  score 2 for any other test.
\<close>

definition picky_judge :: SpecialJudge where
  "picky_judge =
     (\<lambda>i e a t. Completed 0
        (Json_object \<lparr> sj_verdict = Some ''AC'', sj_passed = None,
                        sj_score = Some (if t = ''a'' then Fin (1 / 2) else Fin 2),
                        sj_message = None \<rparr>) [])"



definition crashing_judge :: SpecialJudge where
  "crashing_judge = (\<lambda>i e a t. Completed 1 (Not_json []) ''boom'')"

definition special_mode_judge :: "SpecialJudge \<Rightarrow> Judge" where
  "special_mode_judge sj =
     \<lparr> config = default_config\<lparr> comparison_mode := ''special'',
                                 special_judge_path := Some ''/judge'' \<rparr>,
       special_judge = Some sj \<rparr>"

section \<open>The specification's notions\<close>

text \<open>
  The precedence of the specification on a sequence of per-case verdicts: all AC gives
  AC; otherwise any TLE gives TLE; otherwise any MLE gives MLE; otherwise any RE gives
  RE; otherwise WA.
\<close>

definition precedence :: "Verdict list \<Rightarrow> Verdict" where
  "precedence vs =
     (if set vs \<subseteq> {AC} then AC
      else if TLE \<in> set vs then TLE
      else if MLE \<in> set vs then MLE
      else if RE \<in> set vs then RE
      else WA)"

text \<open>
  The normalisation of the specification, step by step. Step 1 removes every whitespace
  character that only whitespace separates from the end of its line; step 2 removes the
  newlines at the end of the text; step 3 puts the text in lower case.
\<close>

fun strip_line_ends :: "string \<Rightarrow> string" where
  "strip_line_ends [] = []"
| "strip_line_ends (c # cs) =
     (let r = strip_line_ends cs
      in if c = newline then c # r
         else if py_isspace c \<and> (r = [] \<or> hd r = newline) then r
         else c # r)"

fun drop_trailing_newlines :: "string \<Rightarrow> string" where
  "drop_trailing_newlines [] = []"
| "drop_trailing_newlines (c # cs) =
     (let r = drop_trailing_newlines cs
      in if c = newline \<and> r = [] then [] else c # r)"

definition spec_normalise :: "string \<Rightarrow> ProblemConfig \<Rightarrow> string" where
  "spec_normalise t cfg =
     (let s1 = (if ignore_trailing_whitespace cfg then strip_line_ends t else t);
          s2 = (if ignore_trailing_newlines cfg then drop_trailing_newlines s1 else s1)
      in if case_sensitive cfg then s2 else map py_lower s2)"

text \<open>
  A failure of the special judge, as the specification names it: the program exits with a
  code other than 0, or runs into the time limit. \<open>failure_message\<close> is the message that
  \<open>run\<close> builds for the outcome.
\<close>

definition sj_failed :: "sj_outcome \<Rightarrow> bool" where
  "sj_failed r =
     (case r of Completed rc out err \<Rightarrow> rc \<noteq> 0 | TimeoutExpired \<Rightarrow> True | Raised e \<Rightarrow> False)"

definition failure_message :: "sj_outcome \<Rightarrow> message" where
  "failure_message r =
     (case r of
        Completed rc out err \<Rightarrow> [Lit ''Special judge error: '', StrV err]
      | TimeoutExpired \<Rightarrow> [Lit ''Special judge timeout'']
      | Raised e \<Rightarrow> [Lit ''Special judge error: '', ExcV (RaisedError e)])"

section \<open>Properties\<close>

subsection \<open>Basic facts\<close>

lemma fgt_zero_nonzero: "fgt b (Fin 0) \<Longrightarrow> b \<noteq> Fin 0"
  by (auto simp: fgt_def)

lemma overflow_bound_eq: "overflow_bound = 2 ^ 1024 - 2 ^ 970"
  by (simp add: overflow_bound_def)

lemma underflow_scale_eq: "underflow_scale = 2 ^ 1075"
  by (simp add: underflow_scale_def)

lemma round_half_even_zero: "round_half_even 0 = 0"
  by (simp add: round_half_even_def Let_def)

lemma round2_zero: "round2 (Fin 0) = Fin 0"
  by (simp add: round_half_even_zero)

lemma fmul_with_Fin: "fmul_with Fin a b = fmul a b"
  by (cases a; cases b) simp_all

lemma fdiv_with_Fin: "fdiv_with Fin a b = fdiv a b"
  by (cases a; cases b) simp_all

lemma round2_with_Fin: "round2_with Fin a = round2 a"
  by (cases a) simp_all

lemma sum_with_exact: "sum_with exact_arith xs = py_sum xs"
  by (simp add: sum_with_def exact_arith_def py_sum_def)

lemma rnd_exact: "rnd exact_arith = Fin"
  by (simp add: exact_arith_def)

text \<open>\<open>judge_submission\<close>, written out in the arithmetic that does not round.\<close>

lemma judge_submission_exact:
  "judge_submission self h expected_outputs =
     (let compile_result = get_compile_result h
      in if compile_failed compile_result
         then \<lparr> final_verdict = CE, total_score = Fin 0, result_max_score = Fin 0,
                score_percentage = Fin 0, passed_count = 0, failed_count = 0,
                total_count = 0, total_time_ms = 0, max_memory_kb = 0, test_verdicts = [],
                compilation_status = Some ''failed'',
                compilation_message =
                  Some (get2 (cr_stderr (the compile_result)) (cr_error (the compile_result))
                          ''Compilation failed''),
                judge_message = None \<rparr>
         else
           (let verdicts =
                  judge_cases self expected_outputs 0 (get_test_results h expected_outputs);
                total = py_sum (map score verdicts);
                max_total = py_sum (map max_score verdicts);
                passed = int (length (filter (\<lambda>v. verdict v = AC) verdicts));
                failed = int (length verdicts) - passed;
                total_time = sum_list (map execution_time_ms verdicts);
                max_memory = max_default0 (map memory_used_kb verdicts);
                final = determine_final_verdict verdicts;
                percentage =
                  (if fgt max_total (Fin 0) then fmul (fdiv total max_total) (Fin 100)
                   else Fin 0)
            in \<lparr> final_verdict = final, total_score = round2 total,
                 result_max_score = round2 max_total,
                 score_percentage = round2 percentage, passed_count = passed,
                 failed_count = failed, total_count = int (length verdicts),
                 total_time_ms = total_time, max_memory_kb = max_memory,
                 test_verdicts = verdicts,
                 compilation_status =
                   (if compile_result_truthy compile_result then Some ''success'' else None),
                 compilation_message = None, judge_message = None \<rparr>))"
  unfolding judge_submission_def judge_submission_with_def
  by (simp only: sum_with_exact rnd_exact fmul_with_Fin fdiv_with_Fin round2_with_Fin)

lemma list_ex_verdict:
  "list_ex (\<lambda>v. verdict v = x) vs = (x \<in> set (map verdict vs))"
  by (induction vs) auto

lemma list_all_verdict_AC:
  "list_all (\<lambda>v. verdict v = AC) vs = (set (map verdict vs) \<subseteq> {AC})"
  by (induction vs) auto

lemma determine_final_verdict_precedence:
  "determine_final_verdict vs = precedence (map verdict vs)"
  unfolding determine_final_verdict_def precedence_def
  by (simp only: list_ex_verdict list_all_verdict_AC)

subsection \<open>The final verdict\<close>

text \<open>
  Claim C1. Whenever \<open>judge_submission\<close> returns a non-empty sequence of per-case
  verdicts, its final verdict is the precedence of the specification applied to that
  sequence: AC when all cases are AC, otherwise TLE when a case is TLE, otherwise MLE
  when a case is MLE, otherwise RE when a case is RE, otherwise WA. The right-hand side
  reads nothing but the sequence of verdicts, so the final verdict is a function of it.
\<close>

theorem final_verdict_precedence:
  assumes "test_verdicts (judge_submission self h eo) \<noteq> []"
  shows "final_verdict (judge_submission self h eo)
         = precedence (map verdict (test_verdicts (judge_submission self h eo)))"
proof (cases "compile_failed (get_compile_result h)")
  case True
  with assms show ?thesis by (simp add: judge_submission_exact Let_def)
next
  case False
  then show ?thesis
    by (simp add: judge_submission_exact Let_def determine_final_verdict_precedence)
qed

text \<open>A correct case followed by a timed-out case: the final verdict is TLE.\<close>

theorem final_verdict_precedence_witness:
  "final_verdict (judge_submission default_judge two_results_output None)
     = precedence (map verdict
         (test_verdicts (judge_submission default_judge two_results_output None)))
   \<and> final_verdict (judge_submission default_judge two_results_output None) = TLE"
proof -
  have h: "test_verdicts (judge_submission default_judge two_results_output None) \<noteq> []"
    by code_simp
  have a: "final_verdict (judge_submission default_judge two_results_output None) = TLE"
    by code_simp
  show ?thesis using final_verdict_precedence [OF h] a by simp
qed

text \<open>
  Claim C10. For a harness output whose array of test results is empty or absent, that
  has no key \<open>stdout\<close> and no failed compile step, \<open>judge_submission\<close> returns the final
  verdict AC, the totals 0, the percentage 0 and no per-case verdict; \<open>main\<close> then exits
  with code 0.
\<close>

theorem empty_submission_accepted:
  assumes "get2 (ho_test_results h) (ho_testResults h) [] = []"
    and "ho_stdout h = None"
    and "\<not> compile_failed (get_compile_result h)"
  shows "final_verdict (judge_submission self h eo) = AC
       \<and> total_score (judge_submission self h eo) = Fin 0
       \<and> result_max_score (judge_submission self h eo) = Fin 0
       \<and> score_percentage (judge_submission self h eo) = Fin 0
       \<and> test_verdicts (judge_submission self h eo) = []
       \<and> exit_code (judge_submission self h eo) = 0"
  using assms
  by (simp add: judge_submission_exact get_test_results_def Let_def py_sum_def
      round_half_even_zero determine_final_verdict_def fgt_def exit_code_def)

theorem empty_submission_accepted_witness:
  "final_verdict (judge_submission default_judge empty_harness_output None) = AC
   \<and> total_score (judge_submission default_judge empty_harness_output None) = Fin 0
   \<and> result_max_score (judge_submission default_judge empty_harness_output None) = Fin 0
   \<and> score_percentage (judge_submission default_judge empty_harness_output None) = Fin 0
   \<and> test_verdicts (judge_submission default_judge empty_harness_output None) = []
   \<and> exit_code (judge_submission default_judge empty_harness_output None) = 0"
proof -
  have a: "get2 (ho_test_results empty_harness_output)
             (ho_testResults empty_harness_output) [] = []"
    by code_simp
  have b: "ho_stdout empty_harness_output = None"
    by code_simp
  have c: "\<not> compile_failed (get_compile_result empty_harness_output)"
    by code_simp
  show ?thesis by (rule empty_submission_accepted [OF a b c])
qed

subsection \<open>Per-case classification\<close>

text \<open>
  The status string \<open>timed_out\<close> of the specification is not one the judge knows: a
  record with it goes on to the comparison, and is accepted when the outputs match.
\<close>

theorem timed_out_status_not_recognised:
  "tr_status (correct_result ''a''\<lparr> tr_status := Some ''timed_out'' \<rparr>) = Some ''timed_out''
   \<and> verdict (judge_test_case default_judge
        (correct_result ''a''\<lparr> tr_status := Some ''timed_out'' \<rparr>) None) = AC
   \<and> score (judge_test_case default_judge
        (correct_result ''a''\<lparr> tr_status := Some ''timed_out'' \<rparr>) None) = Fin 1"
  by code_simp

text \<open>
  Claim C2, amended. For every test record whose status is \<open>timeout\<close> (the string the
  harness writes) or whose flag \<open>timedOut\<close> is set, \<open>judge_test_case\<close> returns the
  verdict TLE with score 0 and the weight as maximum. The record returned is written out
  here: neither the comparison mode, nor the special judge, nor the expected or the
  actual output occurs in it, so no comparator is consulted.
\<close>

theorem timeout_classified_before_comparison:
  assumes "tr_status tr = Some ''timeout'' \<or> tr_timedOut tr = Some True"
  shows "judge_test_case self tr eo =
           \<lparr> test_id = get2 (tr_test_id tr) (tr_testId tr) ''unknown'',
             verdict = TLE, score = Fin 0,
             max_score = get1 (map_of (test_weights (config self))
                                 (get2 (tr_test_id tr) (tr_testId tr) ''unknown'')) (Fin 1),
             execution_time_ms = get2 (tr_execution_time_ms tr) (tr_executionTimeMs tr) 0,
             memory_used_kb = get2 (tr_memory_used_kb tr) (tr_memoryUsedKb tr) 0,
             message = Some [Lit ''Time limit exceeded ('',
                             IntV (get2 (tr_execution_time_ms tr) (tr_executionTimeMs tr) 0),
                             Lit ''ms)''],
             expected_output = None, actual_output = None,
             input_preview = preview 100 (get1 (tr_input tr) '''') \<rparr>"
proof -
  from assms have "get1 (tr_status tr) '''' = ''timeout'' \<or> get1 (tr_timedOut tr) False"
    by (auto simp: get1_def)
  then show ?thesis
    unfolding judge_test_case_def Let_def by (simp only: if_True)
qed

text \<open>
  A record with status \<open>timeout\<close> and matching outputs, judged in special mode by a
  special judge that accepts everything, and judged by the default judge with another
  expected output: TLE with score 0 both times, and the same record.
\<close>

theorem timeout_classified_before_comparison_witness:
  "verdict (judge_test_case (special_mode_judge (scoring_judge (Fin 1)))
      (correct_result ''a''\<lparr> tr_status := Some ''timeout'' \<rparr>) None) = TLE
   \<and> score (judge_test_case (special_mode_judge (scoring_judge (Fin 1)))
      (correct_result ''a''\<lparr> tr_status := Some ''timeout'' \<rparr>) None) = Fin 0
   \<and> judge_test_case (special_mode_judge (scoring_judge (Fin 1)))
      (correct_result ''a''\<lparr> tr_status := Some ''timeout'' \<rparr>) None
     = judge_test_case default_judge
      (correct_result ''a''\<lparr> tr_status := Some ''timeout'' \<rparr>) (Some ''4'')"
proof -
  have h: "tr_status (correct_result ''a''\<lparr> tr_status := Some ''timeout'' \<rparr>) = Some ''timeout''
           \<or> tr_timedOut (correct_result ''a''\<lparr> tr_status := Some ''timeout'' \<rparr>) = Some True"
    by simp
  note a = timeout_classified_before_comparison
             [OF h, of "special_mode_judge (scoring_judge (Fin 1))" None]
  note b = timeout_classified_before_comparison [OF h, of default_judge "Some ''4''"]
  show ?thesis
    unfolding a b
    by (simp add: special_mode_judge_def default_judge_def default_config_def)
qed

subsection \<open>Scores\<close>

lemma fle_unit_interval:
  assumes "fle (Fin 0) s" and "fle s (Fin 1)"
  obtains x where "s = Fin x" and "0 \<le> x" and "x \<le> 1"
  using assms by (cases s) auto

lemma compare_outputs_builtin:
  assumes "\<not> (special_judge self \<noteq> None \<and> comparison_mode (config self) = ''special'')"
  shows "compare_outputs self i e a t wt
         = (fst (builtin_compare (config self) e a),
            if fst (builtin_compare (config self) e a) then wt else Fin 0,
            snd (builtin_compare (config self) e a))"
  using assms
  by (cases "builtin_compare (config self) e a") (auto simp: compare_outputs_def)

lemma compare_outputs_special:
  assumes "special_judge self = Some sj" and "comparison_mode (config self) = ''special''"
  shows "compare_outputs self i e a t wt
         = (fst (run sj i e a t), fmul (fst (snd (run sj i e a t))) wt,
            snd (snd (run sj i e a t)))"
  using assms
  by (cases "run sj i e a t") (auto simp: compare_outputs_def)

lemma compare_outputs_score:
  assumes "0 \<le> w"
    and "\<And>sj. special_judge self = Some sj \<Longrightarrow> comparison_mode (config self) = ''special''
           \<Longrightarrow> fle (Fin 0) (fst (snd (run sj i e a t))) \<and> fle (fst (snd (run sj i e a t))) (Fin 1)"
  shows "fle (Fin 0) (fst (snd (compare_outputs self i e a t (Fin w))))
       \<and> fle (fst (snd (compare_outputs self i e a t (Fin w)))) (Fin w)"
proof (cases "special_judge self \<noteq> None \<and> comparison_mode (config self) = ''special''")
  case True
  then obtain sj where sj: "special_judge self = Some sj"
    and m: "comparison_mode (config self) = ''special''" by auto
  from assms(2) [OF sj m] obtain x
    where x: "fst (snd (run sj i e a t)) = Fin x" "0 \<le> x" "x \<le> 1"
    by (auto elim: fle_unit_interval)
  have "x * w \<le> w" using x(2) x(3) assms(1) by (simp add: mult_left_le_one_le)
  moreover have "0 \<le> x * w" using x(2) assms(1) by simp
  ultimately show ?thesis
    by (auto simp: compare_outputs_special [OF sj m] x(1))
next
  case False
  then show ?thesis using assms(1)
    by (auto simp: compare_outputs_builtin)
qed

text \<open>
  A special judge that answers \<open>{"verdict": "AC", "score": 2}\<close> on a case of weight 1:
  the score of the case is 2, above its maximum 1.
\<close>

theorem special_judge_score_exceeds_max:
  "score (judge_test_case (special_mode_judge (scoring_judge (Fin 2)))
      (correct_result ''a'') None) = Fin 2
   \<and> max_score (judge_test_case (special_mode_judge (scoring_judge (Fin 2)))
      (correct_result ''a'') None) = Fin 1
   \<and> \<not> fle (score (judge_test_case (special_mode_judge (scoring_judge (Fin 2)))
               (correct_result ''a'') None))
            (max_score (judge_test_case (special_mode_judge (scoring_judge (Fin 2)))
               (correct_result ''a'') None))"
  by code_simp

text \<open>
  Claim C3, amended. For every judged test case whose weight is a finite number
  \<open>w \<ge> 0\<close>, and, when the case is judged by the special judge (there is one and the mode
  is \<open>special\<close>), provided the score that \<open>SpecialJudge.run\<close> returns for this case (for
  its input, expected output, actual output and test id) lies in \<open>[0, 1]\<close>, the verdict
  satisfies \<open>0 \<le> score \<le> max_score\<close> and \<open>max_score\<close> is the weight. The judge does not
  clamp the score of the special judge.
\<close>

theorem score_within_bounds:
  assumes w: "get1 (map_of (test_weights (config self))
                (get2 (tr_test_id tr) (tr_testId tr) ''unknown'')) (Fin 1) = Fin w"
    and w0: "0 \<le> w"
    and sj: "\<And>sj. special_judge self = Some sj
               \<Longrightarrow> comparison_mode (config self) = ''special''
               \<Longrightarrow> fle (Fin 0) (fst (snd (run sj (get1 (tr_input tr) [])
                      (case eo of
                         None \<Rightarrow> get2 (tr_expected_output tr) (tr_expectedOutput tr) []
                       | Some e \<Rightarrow> e)
                      (get2 (tr_actual_output tr) (tr_actualOutput tr) [])
                      (get2 (tr_test_id tr) (tr_testId tr) ''unknown''))))
                   \<and> fle (fst (snd (run sj (get1 (tr_input tr) [])
                      (case eo of
                         None \<Rightarrow> get2 (tr_expected_output tr) (tr_expectedOutput tr) []
                       | Some e \<Rightarrow> e)
                      (get2 (tr_actual_output tr) (tr_actualOutput tr) [])
                      (get2 (tr_test_id tr) (tr_testId tr) ''unknown'')))) (Fin 1)"
  shows "fle (Fin 0) (score (judge_test_case self tr eo))
       \<and> fle (score (judge_test_case self tr eo)) (max_score (judge_test_case self tr eo))
       \<and> max_score (judge_test_case self tr eo) = Fin w"
proof (cases "compare_outputs self (get1 (tr_input tr) [])
          (case eo of None \<Rightarrow> get2 (tr_expected_output tr) (tr_expectedOutput tr) []
           | Some e \<Rightarrow> e)
          (get2 (tr_actual_output tr) (tr_actualOutput tr) [])
          (get2 (tr_test_id tr) (tr_testId tr) ''unknown'') (Fin w)")
  case (fields p s m)
  have "fle (Fin 0) (fst (snd (compare_outputs self (get1 (tr_input tr) [])
          (case eo of None \<Rightarrow> get2 (tr_expected_output tr) (tr_expectedOutput tr) []
           | Some e \<Rightarrow> e)
          (get2 (tr_actual_output tr) (tr_actualOutput tr) [])
          (get2 (tr_test_id tr) (tr_testId tr) ''unknown'') (Fin w))))
      \<and> fle (fst (snd (compare_outputs self (get1 (tr_input tr) [])
          (case eo of None \<Rightarrow> get2 (tr_expected_output tr) (tr_expectedOutput tr) []
           | Some e \<Rightarrow> e)
          (get2 (tr_actual_output tr) (tr_actualOutput tr) [])
          (get2 (tr_test_id tr) (tr_testId tr) ''unknown'') (Fin w)))) (Fin w)"
    by (rule compare_outputs_score [OF w0]) (rule sj)
  then have "fle (Fin 0) s \<and> fle s (Fin w)" by (simp add: fields)
  then show ?thesis
    unfolding judge_test_case_def Let_def w
    using w0 by (auto simp: fields)
qed

lemma run_picky_judge:
  "run picky_judge i e a t = (True, if t = ''a'' then Fin (1 / 2) else Fin 2, [StrV []])"
  by (simp add: run_def run_result_def picky_judge_def)

text \<open>
  A special judge that answers with the score 1/2 for the test \<open>a\<close> and with the score 2
  for any other test: the case \<open>a\<close>, of weight 1, is within the bounds with score 1/2 (the
  case \<open>b\<close> gets the score 2).
\<close>

theorem score_within_bounds_witness:
  "fle (Fin 0) (score (judge_test_case (special_mode_judge picky_judge)
      (correct_result ''a'') None))
   \<and> fle (score (judge_test_case (special_mode_judge picky_judge)
      (correct_result ''a'') None))
          (max_score (judge_test_case (special_mode_judge picky_judge)
      (correct_result ''a'') None))
   \<and> max_score (judge_test_case (special_mode_judge picky_judge)
      (correct_result ''a'') None) = Fin 1
   \<and> score (judge_test_case (special_mode_judge picky_judge)
      (correct_result ''a'') None) = Fin (1 / 2)
   \<and> score (judge_test_case (special_mode_judge picky_judge)
      (correct_result ''b'') None) = Fin 2"
proof -
  have w: "get1 (map_of (test_weights (config (special_mode_judge picky_judge)))
             (get2 (tr_test_id (correct_result ''a'')) (tr_testId (correct_result ''a''))
                ''unknown''))
             (Fin 1) = Fin 1"
    by code_simp
  have w0: "(0::real) \<le> 1" by simp
  have t: "get2 (tr_test_id (correct_result ''a'')) (tr_testId (correct_result ''a''))
             ''unknown'' = ''a''"
    by code_simp
  have sj: "fle (Fin 0) (fst (snd (run sj (get1 (tr_input (correct_result ''a'')) [])
                      (case None of
                         None \<Rightarrow> get2 (tr_expected_output (correct_result ''a''))
                                   (tr_expectedOutput (correct_result ''a'')) []
                       | Some e \<Rightarrow> e)
                      (get2 (tr_actual_output (correct_result ''a''))
                         (tr_actualOutput (correct_result ''a'')) [])
                      (get2 (tr_test_id (correct_result ''a''))
                         (tr_testId (correct_result ''a'')) ''unknown''))))
            \<and> fle (fst (snd (run sj (get1 (tr_input (correct_result ''a'')) [])
                      (case None of
                         None \<Rightarrow> get2 (tr_expected_output (correct_result ''a''))
                                   (tr_expectedOutput (correct_result ''a'')) []
                       | Some e \<Rightarrow> e)
                      (get2 (tr_actual_output (correct_result ''a''))
                         (tr_actualOutput (correct_result ''a'')) [])
                      (get2 (tr_test_id (correct_result ''a''))
                         (tr_testId (correct_result ''a'')) ''unknown'')))) (Fin 1)"
    if "special_judge (special_mode_judge picky_judge) = Some sj" for sj
  proof -
    from that have "sj = picky_judge"
      by (simp add: special_mode_judge_def)
    then show ?thesis by (simp add: run_picky_judge t)
  qed
  have s: "score (judge_test_case (special_mode_judge picky_judge) (correct_result ''a'') None)
           = Fin (1 / 2)"
    by code_simp
  have s2: "score (judge_test_case (special_mode_judge picky_judge) (correct_result ''b'') None)
           = Fin 2"
    by code_simp
  show ?thesis using score_within_bounds [where eo = None, OF w w0 sj] s s2 by simp
qed

subsection \<open>Aggregation\<close>






subsection \<open>Exact comparison\<close>

lemma rdrop_Cons:
  "rev (dropWhile P (rev (c # l)))
   = (if P c \<and> rev (dropWhile P (rev l)) = [] then [] else c # rev (dropWhile P (rev l)))"
  by (auto simp: dropWhile_append dropWhile_eq_Nil_conv)

lemma rstrip_Nil: "rstrip [] = []"
  by (simp add: rstrip_def)

lemma rstrip_Cons:
  "rstrip (c # l) = (if py_isspace c \<and> rstrip l = [] then [] else c # rstrip l)"
  unfolding rstrip_def by (rule rdrop_Cons)

lemma rstrip_nl_Cons:
  "rstrip_nl (c # l) = (if c = newline \<and> rstrip_nl l = [] then [] else c # rstrip_nl l)"
  unfolding rstrip_nl_def by (rule rdrop_Cons)

lemma set_rstrip: "set (rstrip l) \<subseteq> set l"
  unfolding rstrip_def using set_dropWhileD [of _ py_isspace "rev l"] by auto

lemma drop_trailing_newlines_eq: "drop_trailing_newlines s = rstrip_nl s"
proof (induction s)
  case Nil
  show ?case by (simp add: rstrip_nl_def)
next
  case (Cons c s)
  then show ?case by (simp add: rstrip_nl_Cons Let_def)
qed

lemma split_nl_nonempty: "split_nl s \<noteq> []"
  by (induction s) auto

lemma split_nl_no_newline: "l \<in> set (split_nl s) \<Longrightarrow> newline \<notin> set l"
proof (induction s arbitrary: l)
  case Nil
  then show ?case by simp
next
  case (Cons c s)
  obtain l0 ls where sp: "split_nl s = l0 # ls"
    using split_nl_nonempty [of s] by (cases "split_nl s") auto
  show ?case
  proof (cases "c = newline")
    case True
    with Cons.prems have "l = [] \<or> l \<in> set (split_nl s)" by simp
    then show ?thesis using Cons.IH by auto
  next
    case False
    with Cons.prems sp have "l = c # l0 \<or> l \<in> set ls" by simp
    moreover have "newline \<notin> set l0" using Cons.IH [of l0] sp by simp
    moreover have "l \<in> set ls \<Longrightarrow> newline \<notin> set l" using Cons.IH [of l] sp by simp
    ultimately show ?thesis using False by auto
  qed
qed

lemma join_nl_Cons:
  "join_nl (l # ls) = (if ls = [] then l else l @ newline # join_nl ls)"
  by (cases ls) auto

text \<open>
  Step 1 of the specification is what the judge computes by splitting the text at the
  newlines, stripping each piece on the right and joining the pieces again.
\<close>

lemma strip_line_ends_eq: "strip_line_ends t = join_nl (map rstrip (split_nl t))"
proof (induction t)
  case Nil
  show ?case by (simp add: rstrip_Nil)
next
  case (Cons c cs)
  obtain l0 ls where sp: "split_nl cs = l0 # ls"
    using split_nl_nonempty [of cs] by (cases "split_nl cs") auto
  define r where "r = strip_line_ends cs"
  have r: "r = join_nl (rstrip l0 # map rstrip ls)"
    using Cons.IH sp by (simp add: r_def)
  have nl0: "newline \<notin> set l0"
    using split_nl_no_newline [of l0 cs] sp by simp
  show ?case
  proof (cases "c = newline")
    case True
    then show ?thesis
      using r sp by (simp add: r_def [symmetric] rstrip_Nil)
  next
    case False
    show ?thesis
    proof (cases "py_isspace c \<and> rstrip l0 = []")
      case True
      then have "r = [] \<or> hd r = newline"
        using r by (simp add: join_nl_Cons)
      moreover have "join_nl (map rstrip (split_nl (c # cs))) = r"
        using True False sp r by (simp add: rstrip_Cons join_nl_Cons)
      ultimately show ?thesis
        using True False by (simp add: r_def [symmetric])
    next
      case no: False
      have rhs: "join_nl (map rstrip (split_nl (c # cs))) = c # r"
        using no False sp r by (auto simp: rstrip_Cons join_nl_Cons)
      have "\<not> (py_isspace c \<and> (r = [] \<or> hd r = newline))"
      proof
        assume a: "py_isspace c \<and> (r = [] \<or> hd r = newline)"
        with no have ne: "rstrip l0 \<noteq> []" by simp
        then have "r \<noteq> []" and "hd r = hd (rstrip l0)"
          using r by (auto simp: join_nl_Cons)
        moreover have "hd (rstrip l0) \<in> set l0"
          using ne set_rstrip [of l0] by (auto dest: hd_in_set)
        ultimately show False using a nl0 by auto
      qed
      then show ?thesis
        using False rhs by (auto simp: r_def [symmetric] Let_def)
    qed
  qed
qed

lemma normalize_spec: "normalize (Some t) cfg = spec_normalise t cfg"
  by (simp add: normalize_def spec_normalise_def Let_def strip_line_ends_eq
      drop_trailing_newlines_eq lower_def)

text \<open>
  Claim C5. For every pair of strings and every ProblemConfig, \<open>exact_match\<close> reports a
  match if and only if the two strings are equal after the normalisation of the
  specification: trailing whitespace stripped from each line, trailing newlines stripped
  from the text, and the text put in lower case, each according to its flag.
\<close>

theorem exact_match_iff_normalised_equal:
  "fst (exact_match expected actual cfg)
   = (spec_normalise expected cfg = spec_normalise actual cfg)"
  by (simp add: exact_match_def Let_def normalize_spec split: option.splits)

text \<open>
  The texts \<open>3\<close> and \<open>3\<close> followed by two blanks and two newlines match under the
  default configuration; \<open>3\<close> and \<open>4\<close> do not.
\<close>

theorem exact_match_iff_normalised_equal_witness:
  "fst (exact_match ''3'' [CHR ''3'', CHR '' '', CHR '' '', newline, newline] default_config)
   = (spec_normalise ''3'' default_config
      = spec_normalise [CHR ''3'', CHR '' '', CHR '' '', newline, newline] default_config)
   \<and> fst (exact_match ''3'' [CHR ''3'', CHR '' '', CHR '' '', newline, newline] default_config)
   \<and> \<not> fst (exact_match ''3'' ''4'' default_config)"
proof -
  have a: "fst (exact_match ''3'' [CHR ''3'', CHR '' '', CHR '' '', newline, newline]
             default_config)"
    by code_simp
  have b: "\<not> fst (exact_match ''3'' ''4'' default_config)"
    by code_simp
  show ?thesis
    using exact_match_iff_normalised_equal
            [of "''3''" "[CHR ''3'', CHR '' '', CHR '' '', newline, newline]" default_config]
          a b
    by simp
qed

subsection \<open>Float comparison\<close>

text \<open>
  Claim C6, on the code. In float mode with expected output \<open>1.0\<close>, actual output \<open>NaN\<close>
  and status \<open>success\<close>, the built-in \<open>float_match\<close> reports a match and the verdict of
  the case is AC: both comparisons of its test are false on NaN, so the pair is never
  reported as a mismatch. \<open>is_close\<close> of the standalone float judge rejects the same
  pair.
\<close>

theorem float_match_accepts_nan:
  "float_match ''1.0'' ''NaN'' (default_config\<lparr> comparison_mode := ''float'' \<rparr>)
     = (True, [Lit ''All values within tolerance''])
   \<and> verdict (judge_test_case
        (default_judge\<lparr> config := default_config\<lparr> comparison_mode := ''float'' \<rparr> \<rparr>)
        (empty_test_result\<lparr> tr_status := Some ''success'', tr_actual_output := Some ''NaN'',
                             tr_expected_output := Some ''1.0'' \<rparr>) None) = AC
   \<and> \<not> is_close (Fin (1 / 10 ^ 9)) (Fin (1 / 10 ^ 6)) (Fin 1) NaN"
  by code_simp

subsection \<open>Failures of the special judge\<close>

lemma length_judge_cases: "length (judge_cases self eo n trs) = length trs"
  by (induction trs arbitrary: n) (simp_all add: Let_def)

lemma determine_final_verdict_not_IE: "determine_final_verdict vs \<noteq> IE"
  by (simp add: determine_final_verdict_def)

lemma final_verdict_not_IE: "final_verdict (judge_submission self h eo) \<noteq> IE"
  by (cases "compile_failed (get_compile_result h)")
     (simp_all add: judge_submission_exact Let_def determine_final_verdict_not_IE)

lemma all_cases_judged:
  "length (test_verdicts (judge_submission self h eo))
   = (if compile_failed (get_compile_result h) then 0 else length (get_test_results h eo))"
  by (simp add: judge_submission_exact Let_def length_judge_cases)

lemma run_failed:
  assumes "sj_failed (sj i e a t)"
  shows "run sj i e a t = (False, Fin 0, failure_message (sj i e a t))"
  using assms
  by (cases "sj i e a t") (simp_all add: run_def run_result_def sj_failed_def failure_message_def)

text \<open>
  A special judge that exits with code 1: the verdict of the case is WA, not RE.
\<close>

theorem special_judge_crash_is_WA:
  "sj_failed (crashing_judge [] ''3'' ''3'' ''a'')
   \<and> verdict (judge_test_case (special_mode_judge crashing_judge) (correct_result ''a'') None)
     = WA
   \<and> verdict (judge_test_case (special_mode_judge crashing_judge) (correct_result ''a'') None)
     \<noteq> RE"
  by code_simp

text \<open>
  Claim C7, amended. For every test case judged in special mode (its status is none of
  the execution errors) whose weight is finite, when the special judge exits with a code
  other than 0 or times out, the case gets the verdict WA (not RE), the score 0 and the
  message \<open>Special judge error: <stderr>\<close> or \<open>Special judge timeout\<close>. Judging goes on:
  a submission whose compile step did not fail has one verdict for each of its test
  results, whatever the special judge does, and the final verdict is never IE.
\<close>

theorem special_judge_failure_is_local:
  assumes sj: "special_judge self = Some sj"
    and mode: "comparison_mode (config self) = ''special''"
    and st: "get1 (tr_status tr) [] \<notin> set [''timeout'', ''memory_limit'', ''runtime_error'']"
    and nt: "\<not> get1 (tr_timedOut tr) False"
    and w: "get1 (map_of (test_weights (config self))
              (get2 (tr_test_id tr) (tr_testId tr) ''unknown'')) (Fin 1) = Fin w"
    and out: "sj (get1 (tr_input tr) [])
                 (case eo of None \<Rightarrow> get2 (tr_expected_output tr) (tr_expectedOutput tr) []
                  | Some e \<Rightarrow> e)
                 (get2 (tr_actual_output tr) (tr_actualOutput tr) [])
                 (get2 (tr_test_id tr) (tr_testId tr) ''unknown'') = outcome"
    and failed: "sj_failed outcome"
  shows "verdict (judge_test_case self tr eo) = WA
       \<and> score (judge_test_case self tr eo) = Fin 0
       \<and> message (judge_test_case self tr eo) = Some (failure_message outcome)
       \<and> final_verdict (judge_submission self h eos) \<noteq> IE
       \<and> length (test_verdicts (judge_submission self h eos))
         = (if compile_failed (get_compile_result h) then 0
            else length (get_test_results h eos))"
proof -
  have r: "run sj (get1 (tr_input tr) [])
                 (case eo of None \<Rightarrow> get2 (tr_expected_output tr) (tr_expectedOutput tr) []
                  | Some e \<Rightarrow> e)
                 (get2 (tr_actual_output tr) (tr_actualOutput tr) [])
                 (get2 (tr_test_id tr) (tr_testId tr) ''unknown'')
           = (False, Fin 0, failure_message outcome)"
    using run_failed [of sj] failed out by simp
  have "verdict (judge_test_case self tr eo) = WA
       \<and> score (judge_test_case self tr eo) = Fin 0
       \<and> message (judge_test_case self tr eo) = Some (failure_message outcome)"
    unfolding judge_test_case_def Let_def w
    using st nt by (simp add: compare_outputs_special [OF sj mode] r)
  then show ?thesis
    using final_verdict_not_IE [of self h eos] all_cases_judged [of self h eos] by simp
qed

text \<open>
  The crashing special judge on a submission of two cases: the first case is WA with
  score 0 and the message of the crash, both cases are judged, and the final verdict
  (TLE, from the second case) is not IE.
\<close>

theorem special_judge_failure_is_local_witness:
  "verdict (judge_test_case (special_mode_judge crashing_judge) (correct_result ''a'') None) = WA
   \<and> score (judge_test_case (special_mode_judge crashing_judge) (correct_result ''a'') None)
     = Fin 0
   \<and> message (judge_test_case (special_mode_judge crashing_judge) (correct_result ''a'') None)
     = Some [Lit ''Special judge error: '', StrV ''boom'']
   \<and> final_verdict (judge_submission (special_mode_judge crashing_judge) two_results_output None)
     = TLE
   \<and> length (test_verdicts
        (judge_submission (special_mode_judge crashing_judge) two_results_output None)) = 2"
proof -
  have sj: "special_judge (special_mode_judge crashing_judge) = Some crashing_judge"
    by (simp add: special_mode_judge_def)
  have mode: "comparison_mode (config (special_mode_judge crashing_judge)) = ''special''"
    by (simp add: special_mode_judge_def)
  have st: "get1 (tr_status (correct_result ''a'')) []
            \<notin> set [''timeout'', ''memory_limit'', ''runtime_error'']"
    by code_simp
  have nt: "\<not> get1 (tr_timedOut (correct_result ''a'')) False"
    by code_simp
  have w: "get1 (map_of (test_weights (config (special_mode_judge crashing_judge)))
             (get2 (tr_test_id (correct_result ''a'')) (tr_testId (correct_result ''a''))
                ''unknown'')) (Fin 1) = Fin 1"
    by code_simp
  have out: "crashing_judge (get1 (tr_input (correct_result ''a'')) [])
               (case None of
                  None \<Rightarrow> get2 (tr_expected_output (correct_result ''a''))
                            (tr_expectedOutput (correct_result ''a'')) []
                | Some e \<Rightarrow> e)
               (get2 (tr_actual_output (correct_result ''a''))
                  (tr_actualOutput (correct_result ''a'')) [])
               (get2 (tr_test_id (correct_result ''a'')) (tr_testId (correct_result ''a''))
                  ''unknown'')
             = Completed 1 (Not_json []) ''boom''"
    by (simp add: crashing_judge_def)
  have failed: "sj_failed (Completed 1 (Not_json []) ''boom'')"
    by (simp add: sj_failed_def)
  have fm: "failure_message (Completed 1 (Not_json []) ''boom'')
            = [Lit ''Special judge error: '', StrV ''boom'']"
    by (simp add: failure_message_def)
  have fv: "final_verdict
              (judge_submission (special_mode_judge crashing_judge) two_results_output None)
            = TLE"
    by code_simp
  have len: "(if compile_failed (get_compile_result two_results_output) then 0
              else length (get_test_results two_results_output None)) = 2"
    by code_simp
  show ?thesis
    using special_judge_failure_is_local [OF sj mode st nt w out failed,
            of two_results_output None] fm fv len
    by simp
qed

subsection \<open>The harness record\<close>

lemma strip_3: "strip ''3'' = ''3''"
  by (simp add: strip_def rstrip_def py_isspace_def)

lemma strip_empty: "strip [] = []"
  by (simp add: strip_def rstrip_def)

lemma run_single_test_exit_1:
  "run_single_test
      \<lparr> tc_id = ''t'', tc_input = '''', tc_expected_output = ''3'', tc_time_limit_ms = None,
        tc_memory_limit_kb = None, tc_hidden = False, tc_weight = Fin 1 \<rparr>
      5 262144 (Proc_exited 1 ''3'' '''') 10 100 =
   \<lparr> h_test_id = ''t'', h_passed = True, h_input = [], h_expected_output = ''3'',
     h_actual_output = ''3'', h_execution_time_ms = 10, h_memory_used_kb = 100,
     h_status = ''passed'',
     h_error = Some [Lit ''Runtime error (exit code: '', IntV 1, Lit '')''],
     h_stderr = None \<rparr>"
  by (simp add: run_single_test_def Let_def strip_3 strip_empty)

lemma rt_run_single_test_exit_1:
  "rt_run_single_test ''3'' ''t'' 262144 (Popen_exited 1 ''3'' '''') 10 (Some 100) =
   \<lparr> rt_testId = ''t'', rt_passed = False, rt_exitCode = 1, rt_timeMs = 10,
     rt_memoryKb = 100, rt_timeoutOccurred = False, rt_memoryExceeded = False,
     rt_stdout = ''3'', rt_stderr = [], rt_expectedOutput = ''3'' \<rparr>"
  by (simp add: rt_run_single_test_def Let_def)

text \<open>
  Claim C8, on the code. A run that exits with code 1 and prints the expected output
  \<open>3\<close>: \<open>run_single_test\<close> of json\_helper.py records it with the status \<open>passed\<close> and
  \<open>passed = True\<close> (and keeps the error text of the runtime error), while
  \<open>run_single_test\<close> of run\_tests.py records the same run as not passed.
\<close>

theorem nonzero_exit_recorded_passed:
  "h_status (run_single_test
      \<lparr> tc_id = ''t'', tc_input = '''', tc_expected_output = ''3'', tc_time_limit_ms = None,
        tc_memory_limit_kb = None, tc_hidden = False, tc_weight = Fin 1 \<rparr>
      5 262144 (Proc_exited 1 ''3'' '''') 10 100) = ''passed''
   \<and> h_passed (run_single_test
      \<lparr> tc_id = ''t'', tc_input = '''', tc_expected_output = ''3'', tc_time_limit_ms = None,
        tc_memory_limit_kb = None, tc_hidden = False, tc_weight = Fin 1 \<rparr>
      5 262144 (Proc_exited 1 ''3'' '''') 10 100)
   \<and> h_error (run_single_test
      \<lparr> tc_id = ''t'', tc_input = '''', tc_expected_output = ''3'', tc_time_limit_ms = None,
        tc_memory_limit_kb = None, tc_hidden = False, tc_weight = Fin 1 \<rparr>
      5 262144 (Proc_exited 1 ''3'' '''') 10 100)
     = Some [Lit ''Runtime error (exit code: '', IntV 1, Lit '')'']
   \<and> \<not> rt_passed (rt_run_single_test ''3'' ''t'' 262144 (Popen_exited 1 ''3'' '''') 10
                      (Some 100))"
  by (simp add: run_single_test_exit_1 rt_run_single_test_exit_1)

subsection \<open>Determinism\<close>

lemma compare_outputs_indep:
  assumes "config j1 = config j2"
    and "comparison_mode (config j1) \<noteq> ''special''
         \<or> (special_judge j1 = None \<and> special_judge j2 = None)"
  shows "compare_outputs j1 i e a t wt = compare_outputs j2 i e a t wt"
proof -
  have "\<not> (special_judge j1 \<noteq> None \<and> comparison_mode (config j1) = ''special'')"
    and "\<not> (special_judge j2 \<noteq> None \<and> comparison_mode (config j2) = ''special'')"
    using assms by auto
  then show ?thesis using assms(1) by (simp add: compare_outputs_builtin)
qed

lemma judge_test_case_indep:
  assumes "config j1 = config j2"
    and "comparison_mode (config j1) \<noteq> ''special''
         \<or> (special_judge j1 = None \<and> special_judge j2 = None)"
  shows "judge_test_case j1 tr eo = judge_test_case j2 tr eo"
  unfolding judge_test_case_def Let_def
  by (simp only: compare_outputs_indep [OF assms] assms(1))

lemma judge_cases_indep:
  assumes "config j1 = config j2"
    and "comparison_mode (config j1) \<noteq> ''special''
         \<or> (special_judge j1 = None \<and> special_judge j2 = None)"
  shows "judge_cases j1 eo n trs = judge_cases j2 eo n trs"
  by (induction trs arbitrary: n) (simp_all add: Let_def judge_test_case_indep [OF assms])

text \<open>
  Claim C9. The judge is a function of its config, the harness output and the expected
  outputs; the special-judge program is the only thing outside these that it reads. When
  the comparison mode does not invoke the special judge (the mode is not \<open>special\<close>, or
  no special judge is configured), two runs of \<open>judge_submission\<close> with the same config on
  the same harness output and expected outputs return the same JudgeResult, whatever the
  special-judge program would do in either run.
\<close>

theorem judge_submission_deterministic:
  assumes "config j1 = config j2"
    and "comparison_mode (config j1) \<noteq> ''special''
         \<or> (special_judge j1 = None \<and> special_judge j2 = None)"
  shows "judge_submission j1 h eo = judge_submission j2 h eo"
  unfolding judge_submission_exact Let_def
  by (simp only: judge_cases_indep [OF assms])

text \<open>
  Exact mode with a special judge configured, and two different special-judge programs
  behind its path: the same result.
\<close>

theorem judge_submission_deterministic_witness:
  "judge_submission
     \<lparr> config = default_config\<lparr> special_judge_path := Some ''/judge'' \<rparr>,
       special_judge = Some crashing_judge \<rparr>
     two_results_output (Some [(''a'', ''3'')])
   = judge_submission
     \<lparr> config = default_config\<lparr> special_judge_path := Some ''/judge'' \<rparr>,
       special_judge = Some (scoring_judge (Fin 2)) \<rparr>
     two_results_output (Some [(''a'', ''3'')])"
proof -
  have c: "config \<lparr> config = default_config\<lparr> special_judge_path := Some ''/judge'' \<rparr>,
                    special_judge = Some crashing_judge \<rparr>
           = config \<lparr> config = default_config\<lparr> special_judge_path := Some ''/judge'' \<rparr>,
                      special_judge = Some (scoring_judge (Fin 2)) \<rparr>"
    by simp
  have m: "comparison_mode
             (config \<lparr> config = default_config\<lparr> special_judge_path := Some ''/judge'' \<rparr>,
                       special_judge = Some crashing_judge \<rparr>) \<noteq> ''special''
           \<or> (special_judge
                 \<lparr> config = default_config\<lparr> special_judge_path := Some ''/judge'' \<rparr>,
                   special_judge = Some crashing_judge \<rparr> = None
              \<and> special_judge
                 \<lparr> config = default_config\<lparr> special_judge_path := Some ''/judge'' \<rparr>,
                   special_judge = Some (scoring_judge (Fin 2)) \<rparr> = None)"
    by (simp add: default_config_def)
  show ?thesis by (rule judge_submission_deterministic [OF c m])
qed

end
